theory Spec2Isabelle
  imports Complex_Main
begin

section \<open>JavaScript values used by the mock emission generator\<close>

text \<open>
  The mock data generator (found in \<^verbatim>\<open>server/_core/supabase.ts\<close>, imported by the routes
  as \<^verbatim>\<open>_core/mockDataGenerator\<close>) computes with JavaScript numbers. A finite number is
  idealised as an exact real (no binary rounding, no overflow, no signed zero); the two
  values that a property read or an arithmetic operation can produce besides a finite
  number are kept: \<open>NaN\<close>, and \<open>Undefined\<close> for a property that the object does not
  have.
\<close>

datatype jsnum = Num real | NaN | Undefined

text \<open>\<^verbatim>\<open>a * b\<close>, \<^verbatim>\<open>a + b\<close>, \<^verbatim>\<open>a / b\<close> on numbers: \<^verbatim>\<open>undefined\<close> is converted to
  \<^verbatim>\<open>NaN\<close>, and \<^verbatim>\<open>NaN\<close> is absorbing. Division is only used with the divisor 10.\<close>

fun js_mul :: "jsnum \<Rightarrow> jsnum \<Rightarrow> jsnum" where
  "js_mul (Num a) (Num b) = Num (a * b)"
| "js_mul _ _ = NaN"

fun js_add :: "jsnum \<Rightarrow> jsnum \<Rightarrow> jsnum" where
  "js_add (Num a) (Num b) = Num (a + b)"
| "js_add _ _ = NaN"

fun js_div :: "jsnum \<Rightarrow> jsnum \<Rightarrow> jsnum" where
  "js_div (Num a) (Num b) = (if b = 0 then NaN else Num (a / b))"
| "js_div _ _ = NaN"

text \<open>\<^verbatim>\<open>Math.max\<close>, \<^verbatim>\<open>Math.min\<close>: \<^verbatim>\<open>NaN\<close> as soon as one argument is not a number.\<close>

fun Math_max :: "jsnum \<Rightarrow> jsnum \<Rightarrow> jsnum" where
  "Math_max (Num a) (Num b) = Num (max a b)"
| "Math_max _ _ = NaN"

fun Math_min :: "jsnum \<Rightarrow> jsnum \<Rightarrow> jsnum" where
  "Math_min (Num a) (Num b) = Num (min a b)"
| "Math_min _ _ = NaN"

text \<open>\<^verbatim>\<open>Math.round(x)\<close> is the integer nearest to \<open>x\<close>, a tie going upwards:
  \<open>\<lfloor>x + 1/2\<rfloor>\<close>.\<close>

fun Math_round :: "jsnum \<Rightarrow> jsnum" where
  "Math_round (Num a) = Num (of_int \<lfloor>a + 1 / 2\<rfloor>)"
| "Math_round _ = NaN"

text \<open>\<^verbatim>\<open>a ?? b\<close>: the right operand only when the left one is \<^verbatim>\<open>undefined\<close>.\<close>

definition nullish :: "jsnum \<Rightarrow> jsnum \<Rightarrow> jsnum" where
  "nullish a b = (if a = Undefined then b else a)"

text \<open>Truthiness of a number (\<^verbatim>\<open>x && ...\<close>), and \<^verbatim>\<open>x > t\<close>, which is false as soon as one side is not a number.\<close>

fun truthy :: "jsnum \<Rightarrow> bool" where
  "truthy (Num a) = (a \<noteq> 0)"
| "truthy _ = False"

fun js_gt :: "jsnum \<Rightarrow> jsnum \<Rightarrow> bool" where
  "js_gt (Num a) (Num t) = (a > t)"
| "js_gt _ _ = False"

text \<open>\<^verbatim>\<open>String.prototype.toLowerCase\<close> on the bytes of the string: the letters A to Z
  are mapped to a to z, every other byte is kept. JavaScript also lower-cases letters
  outside ASCII; none of them becomes a letter of a key of the fuel-type table, so the
  table is read with the same result.\<close>

definition toLowerChar :: "char \<Rightarrow> char" where
  "toLowerChar c =
     (case map_of (zip ''ABCDEFGHIJKLMNOPQRSTUVWXYZ'' ''abcdefghijklmnopqrstuvwxyz'') c of
        Some d \<Rightarrow> d
      | None \<Rightarrow> c)"

definition toLowerCase :: "string \<Rightarrow> string" where
  "toLowerCase s = map toLowerChar s"


section \<open>Data model\<close>

record EmissionBaseline =
  co2 :: jsnum
  co :: jsnum
  nox :: jsnum
  pmLevel :: jsnum

datatype trend = stable | increasing | decreasing | volatile

text \<open>\<open>lastReading\<close> is optional in the interface (\<open>None\<close> is the absent property). The
  declared type of \<open>trend\<close> has four values; the field holds what the array read
  \<^verbatim>\<open>trends[...]\<close> returns, which is \<^verbatim>\<open>undefined\<close> (\<open>None\<close>) outside the array.\<close>

record VehicleProfile =
  vehicleId :: int
  baseline :: EmissionBaseline
  lastReading :: "EmissionBaseline option"
  trend :: "trend option"
  volatility :: real

text \<open>The module state: the map \<^verbatim>\<open>vehicleProfiles\<close>, and the source of
  \<^verbatim>\<open>Math.random()\<close>, given by the sequence of the numbers it will return.\<close>

record world =
  vehicleProfiles :: "int \<rightharpoonup> VehicleProfile"
  random :: "nat \<Rightarrow> real"

definition Math_random :: "world \<Rightarrow> real \<times> world" where
  "Math_random w = (random w 0, w\<lparr>random := (\<lambda>n. random w (Suc n))\<rparr>)"

text \<open>\<^verbatim>\<open>Math.random()\<close> returns a number in \<open>[0, 1)\<close>.\<close>

definition valid_random :: "world \<Rightarrow> bool" where
  "valid_random w = (\<forall>n. 0 \<le> random w n \<and> random w n < 1)"


section \<open>Profile store\<close>

definition petrol :: EmissionBaseline where
  "petrol = \<lparr>co2 = Num 450, co = Num 8, nox = Num 35, pmLevel = Num 25\<rparr>"

definition diesel :: EmissionBaseline where
  "diesel = \<lparr>co2 = Num 550, co = Num 12, nox = Num 45, pmLevel = Num 40\<rparr>"

definition hybrid :: EmissionBaseline where
  "hybrid = \<lparr>co2 = Num 300, co = Num 5, nox = Num 20, pmLevel = Num 15\<rparr>"

definition electric :: EmissionBaseline where
  "electric = \<lparr>co2 = Num 0, co = Num 0, nox = Num 0, pmLevel = Num 5\<rparr>"

definition cng :: EmissionBaseline where
  "cng = \<lparr>co2 = Num 400, co = Num 6, nox = Num 25, pmLevel = Num 20\<rparr>"

text \<open>\<^verbatim>\<open>EMISSION_BASELINES\<close> is an object literal, and \<^verbatim>\<open>EMISSION_BASELINES[key]\<close> is a
  property read: it finds the five own properties, and the properties inherited from
  \<^verbatim>\<open>Object.prototype\<close>. The key is lower-cased before the read, and the only
  inherited names without a capital letter are \<^verbatim>\<open>constructor\<close> (the function
  \<^verbatim>\<open>Object\<close>) and \<^verbatim>\<open>__proto__\<close> (the object \<^verbatim>\<open>Object.prototype\<close>). Both are objects,
  hence truthy, and neither has one of the four gas properties: \<open>inherited_object\<close>
  stands for them.\<close>

definition inherited_object :: EmissionBaseline where
  "inherited_object = \<lparr>co2 = Undefined, co = Undefined, nox = Undefined, pmLevel = Undefined\<rparr>"

definition EMISSION_BASELINES :: "string \<Rightarrow> EmissionBaseline option" where
  "EMISSION_BASELINES key =
     (if key = ''petrol'' then Some petrol
      else if key = ''diesel'' then Some diesel
      else if key = ''hybrid'' then Some hybrid
      else if key = ''electric'' then Some electric
      else if key = ''cng'' then Some cng
      else if key = ''constructor'' \<or> key = ''__proto__'' then Some inherited_object
      else None)"

definition trends :: "trend list" where
  "trends = [stable, increasing, decreasing, volatile]"

text \<open>\<^verbatim>\<open>trends[i]\<close> for an integer \<open>i\<close>.\<close>

definition trends_at :: "int \<Rightarrow> trend option" where
  "trends_at i = (if 0 \<le> i \<and> i < int (length trends) then Some (trends ! nat i) else None)"

text \<open>\<^verbatim>\<open>getVehicleProfile\<close>: the spread \<^verbatim>\<open>{ ...baseline }\<close> copies the four properties,
  so the copy is the same record value.\<close>

definition getVehicleProfile :: "int \<Rightarrow> string \<Rightarrow> world \<Rightarrow> VehicleProfile \<times> world" where
  "getVehicleProfile vehicleId_v fuelType w =
     (case vehicleProfiles w vehicleId_v of
        Some profile \<Rightarrow> (profile, w)
      | None \<Rightarrow>
          (let baseline_v = (case EMISSION_BASELINES (toLowerCase fuelType) of
                               Some b \<Rightarrow> b
                             | None \<Rightarrow> petrol);
               (r1, w1) = Math_random w;
               trend_v = trends_at \<lfloor>r1 * real (length trends)\<rfloor>;
               (r2, w2) = Math_random w1;
               volatility_v = 0.1 + r2 * 0.2;
               profile = \<lparr>vehicleId = vehicleId_v, baseline = baseline_v,
                          lastReading = Some baseline_v, trend = trend_v,
                          volatility = volatility_v\<rparr>
           in (profile, w2\<lparr>vehicleProfiles := (vehicleProfiles w2)(vehicleId_v \<mapsto> profile)\<rparr>)))"

text \<open>\<^verbatim>\<open>resetVehicleProfile\<close>: \<^verbatim>\<open>Map.prototype.delete\<close>.\<close>

definition resetVehicleProfile :: "int \<Rightarrow> world \<Rightarrow> world" where
  "resetVehicleProfile vehicleId_v w =
     w\<lparr>vehicleProfiles := (vehicleProfiles w)(vehicleId_v := None)\<rparr>"

section \<open>Reading generator\<close>

text \<open>The \<^verbatim>\<open>switch (trend)\<close>: every branch calls \<^verbatim>\<open>Math.random()\<close> once, and the
  argument \<open>r\<close> is that draw. \<^verbatim>\<open>'stable'\<close> shares the \<^verbatim>\<open>default\<close> branch.\<close>

fun trendMultiplier :: "trend option \<Rightarrow> real \<Rightarrow> real" where
  "trendMultiplier (Some increasing) r = 1 + r * 0.05"
| "trendMultiplier (Some decreasing) r = 1 - r * 0.05"
| "trendMultiplier (Some volatile) r = 0.85 + r * 0.3"
| "trendMultiplier _ r = 0.95 + r * 0.1"

text \<open>The closure \<^verbatim>\<open>generateValue\<close>; the two variables it captures, \<^verbatim>\<open>volatility\<close> and
  \<^verbatim>\<open>trendMultiplier\<close>, are its first two arguments. The four calls pass both variation
  bounds, so the default values of these parameters are never used.\<close>

definition generateValue ::
  "real \<Rightarrow> real \<Rightarrow> jsnum \<Rightarrow> jsnum \<Rightarrow> real \<Rightarrow> real \<Rightarrow> world \<Rightarrow> jsnum \<times> world" where
  "generateValue volatility_v trendMultiplier_v baseValue lastValue minVariation maxVariation w =
     (let reference = nullish lastValue baseValue;
          (r, w') = Math_random w;
          variation = minVariation + r * (maxVariation - minVariation);
          variationAmount = js_mul (js_mul reference (Num volatility_v)) (Num variation);
          newValue = js_add reference variationAmount;
          newValue = js_mul newValue (Num trendMultiplier_v);
          newValue =
            (if baseValue = Num 0 then Math_max (Num 0) (Math_min newValue (Num 10))
             else Math_max (js_mul baseValue (Num 0.2))
                    (Math_min newValue (js_mul baseValue (Num 2))))
      in (js_div (Math_round (js_mul newValue (Num 10))) (Num 10), w'))"

text \<open>\<^verbatim>\<open>lastReading?.co2\<close> and its three siblings.\<close>

definition opt_field :: "(EmissionBaseline \<Rightarrow> jsnum) \<Rightarrow> EmissionBaseline option \<Rightarrow> jsnum" where
  "opt_field f l = (case l of None \<Rightarrow> Undefined | Some e \<Rightarrow> f e)"

text \<open>\<^verbatim>\<open>generateMockEmissionReading\<close>. The profile it mutates at the end is the object held
  by the map, so the assignment to \<^verbatim>\<open>profile.lastReading\<close> updates the map entry.\<close>

definition generateMockEmissionReading :: "int \<Rightarrow> string \<Rightarrow> world \<Rightarrow> EmissionBaseline \<times> world" where
  "generateMockEmissionReading vehicleId_v fuelType w =
     (let (profile, w0) = getVehicleProfile vehicleId_v fuelType w;
          (rt, w1) = Math_random w0;
          trendMultiplier_v = trendMultiplier (trend profile) rt;
          (rc, w2) = Math_random w1;
          correlationFactor = 0.7 + rc * 0.3;
          (co2_v, w3) = generateValue (volatility profile) trendMultiplier_v
                          (co2 (baseline profile)) (opt_field co2 (lastReading profile))
                          (- 0.2 * correlationFactor) (0.2 * correlationFactor) w2;
          (co_v, w4) = generateValue (volatility profile) trendMultiplier_v
                          (co (baseline profile)) (opt_field co (lastReading profile))
                          (- 0.25 * correlationFactor) (0.25 * correlationFactor) w3;
          (nox_v, w5) = generateValue (volatility profile) trendMultiplier_v
                          (nox (baseline profile)) (opt_field nox (lastReading profile))
                          (- 0.2 * correlationFactor) (0.2 * correlationFactor) w4;
          (pmLevel_v, w6) = generateValue (volatility profile) trendMultiplier_v
                          (pmLevel (baseline profile)) (opt_field pmLevel (lastReading profile))
                          (- 0.3 * correlationFactor) (0.3 * correlationFactor) w5;
          reading = \<lparr>co2 = co2_v, co = co_v, nox = nox_v, pmLevel = pmLevel_v\<rparr>
      in (reading,
          w6\<lparr>vehicleProfiles :=
               (vehicleProfiles w6)(vehicleId_v \<mapsto> profile\<lparr>lastReading := Some reading\<rparr>)\<rparr>))"


section \<open>Historical backfill\<close>

text \<open>\<^verbatim>\<open>Math.floor((hoursBack * 60) / intervalMinutes)\<close>: a division by zero gives an
  infinity or \<^verbatim>\<open>NaN\<close>, which \<^verbatim>\<open>Math.floor\<close> returns unchanged.\<close>

datatype loop_bound = Finite int | PosInfinity | NegInfinity | NotANumber

definition points_of :: "real \<Rightarrow> real \<Rightarrow> loop_bound" where
  "points_of hoursBack intervalMinutes =
     (if intervalMinutes = 0 then
        (if hoursBack * 60 > 0 then PosInfinity
         else if hoursBack * 60 < 0 then NegInfinity
         else NotANumber)
      else Finite \<lfloor>hoursBack * 60 / intervalMinutes\<rfloor>)"

text \<open>The loop test \<^verbatim>\<open>i <= points\<close>.\<close>

fun le_bound :: "int \<Rightarrow> loop_bound \<Rightarrow> bool" where
  "le_bound i (Finite p) = (i \<le> p)"
| "le_bound i PosInfinity = True"
| "le_bound i NegInfinity = False"
| "le_bound i NotANumber = False"

text \<open>The \<^verbatim>\<open>for\<close> loop of \<^verbatim>\<open>generateHistoricalData\<close>, from the counter \<open>i\<close> and the array
  \<open>data\<close> built so far. It does not return (\<open>None\<close>) when the test never fails.\<close>

partial_function (option) history_loop ::
  "int \<Rightarrow> string \<Rightarrow> loop_bound \<Rightarrow> int \<Rightarrow> EmissionBaseline list \<Rightarrow> world
     \<Rightarrow> (EmissionBaseline list \<times> world) option" where
  "history_loop vehicleId_v fuelType points i data w =
     (if le_bound i points then
        (case generateMockEmissionReading vehicleId_v fuelType w of
           (reading, w') \<Rightarrow> history_loop vehicleId_v fuelType points (i + 1) (data @ [reading]) w')
      else Some (data, w))"

declare history_loop.simps [code]

definition generateHistoricalData ::
  "int \<Rightarrow> string \<Rightarrow> real \<Rightarrow> real \<Rightarrow> world \<Rightarrow> (EmissionBaseline list \<times> world) option" where
  "generateHistoricalData vehicleId_v fuelType hoursBack intervalMinutes w =
     (let points = points_of hoursBack intervalMinutes;
          w1 = resetVehicleProfile vehicleId_v w;
          (profile, w2) = getVehicleProfile vehicleId_v fuelType w1
      in history_loop vehicleId_v fuelType points 0 [] w2)"


section \<open>Threshold checks of the API routes\<close>

record Vehicle =
  vehicle_id :: int
  vehicle_fuelType :: string

record Alert =
  alert_vehicleId :: int
  gasType :: string
  measuredValue :: jsnum
  thresholdValue :: jsnum

datatype error = VehicleNotFound | NoTargetGiven

definition thresholds :: EmissionBaseline where
  "thresholds = \<lparr>co2 = Num 1000, co = Num 50, nox = Num 100, pmLevel = Num 100\<rparr>"

text \<open>The result of \<^verbatim>\<open>getVehicleById\<close> on the table of vehicles.\<close>

definition getVehicleById :: "Vehicle list \<Rightarrow> int \<Rightarrow> Vehicle option" where
  "getVehicleById vehicles i = find (\<lambda>v. vehicle_id v = i) vehicles"

text \<open>The input of \<^verbatim>\<open>emissions.ingest\<close>: four optional numbers and the device
  identifier.\<close>

record IngestInput = EmissionBaseline +
  deviceId :: string

text \<open>\<^verbatim>\<open>emissions.ingest\<close>, after the reading is stored: the four checks
  \<^verbatim>\<open>input.co2 && input.co2 > thresholds.co2\<close>, in the order of the source. The result is the
  list of the records handed to \<^verbatim>\<open>createAlert\<close>, which inserts each into the table of
  alerts.\<close>

definition ingest_alerts :: "int \<Rightarrow> IngestInput \<Rightarrow> Alert list" where
  "ingest_alerts vid inp =
     (if truthy (co2 inp) \<and> js_gt (co2 inp) (co2 thresholds)
      then [\<lparr>alert_vehicleId = vid, gasType = ''CO2'', measuredValue = co2 inp,
              thresholdValue = co2 thresholds\<rparr>] else [])
     @ (if truthy (co inp) \<and> js_gt (co inp) (co thresholds)
      then [\<lparr>alert_vehicleId = vid, gasType = ''CO'', measuredValue = co inp,
              thresholdValue = co thresholds\<rparr>] else [])
     @ (if truthy (nox inp) \<and> js_gt (nox inp) (nox thresholds)
      then [\<lparr>alert_vehicleId = vid, gasType = ''NOx'', measuredValue = nox inp,
              thresholdValue = nox thresholds\<rparr>] else [])
     @ (if truthy (pmLevel inp) \<and> js_gt (pmLevel inp) (pmLevel thresholds)
      then [\<lparr>alert_vehicleId = vid, gasType = ''PM'', measuredValue = pmLevel inp,
              thresholdValue = pmLevel thresholds\<rparr>] else [])"

text \<open>\<^verbatim>\<open>emissions.ingest\<close>; the argument \<open>vehicle\<close> is the result of
  \<^verbatim>\<open>getVehicleByDeviceId(input.deviceId)\<close>.\<close>

definition ingest :: "Vehicle option \<Rightarrow> IngestInput \<Rightarrow> error + Alert list" where
  "ingest vehicle inp =
     (case vehicle of
        None \<Rightarrow> Inl VehicleNotFound
      | Some v \<Rightarrow> Inr (ingest_alerts (vehicle_id v) inp))"

text \<open>\<^verbatim>\<open>emissions.generateMock\<close>: the four checks \<^verbatim>\<open>mockData.co2 > thresholds.co2\<close> that
  follow the generation of a reading, the same in both branches of the route.\<close>

definition mock_alerts :: "int \<Rightarrow> EmissionBaseline \<Rightarrow> Alert list" where
  "mock_alerts vid mockData =
     (if js_gt (co2 mockData) (co2 thresholds)
      then [\<lparr>alert_vehicleId = vid, gasType = ''CO2'', measuredValue = co2 mockData,
              thresholdValue = co2 thresholds\<rparr>] else [])
     @ (if js_gt (co mockData) (co thresholds)
      then [\<lparr>alert_vehicleId = vid, gasType = ''CO'', measuredValue = co mockData,
              thresholdValue = co thresholds\<rparr>] else [])
     @ (if js_gt (nox mockData) (nox thresholds)
      then [\<lparr>alert_vehicleId = vid, gasType = ''NOx'', measuredValue = nox mockData,
              thresholdValue = nox thresholds\<rparr>] else [])
     @ (if js_gt (pmLevel mockData) (pmLevel thresholds)
      then [\<lparr>alert_vehicleId = vid, gasType = ''PM'', measuredValue = pmLevel mockData,
              thresholdValue = pmLevel thresholds\<rparr>] else [])"

text \<open>One vehicle of \<^verbatim>\<open>emissions.generateMock\<close>: the reading and the alerts created for
  it.\<close>

definition generateMock_vehicle ::
  "Vehicle \<Rightarrow> world \<Rightarrow> (EmissionBaseline \<times> Alert list) \<times> world" where
  "generateMock_vehicle vehicle w =
     (let (mockData, w') = generateMockEmissionReading (vehicle_id vehicle) (vehicle_fuelType vehicle) w
      in ((mockData, mock_alerts (vehicle_id vehicle) mockData), w'))"

fun generateMock_all ::
  "Vehicle list \<Rightarrow> world \<Rightarrow> (EmissionBaseline \<times> Alert list) list \<times> world" where
  "generateMock_all [] w = ([], w)"
| "generateMock_all (vehicle # vehicles) w =
     (let (res, w') = generateMock_vehicle vehicle w;
          (rest, w'') = generateMock_all vehicles w'
      in (res # rest, w''))"

text \<open>\<^verbatim>\<open>emissions.generateMock\<close>; \<open>vehicleId_in\<close> is the optional \<^verbatim>\<open>input.vehicleId\<close>, tested
  for truthiness, and \<open>vehicles\<close> is the table of vehicles.\<close>

definition generateMock ::
  "Vehicle list \<Rightarrow> int option \<Rightarrow> bool \<Rightarrow> world
     \<Rightarrow> error + (EmissionBaseline \<times> Alert list) list \<times> world" where
  "generateMock vehicles vehicleId_in generateForAll w =
     (if generateForAll then Inr (generateMock_all vehicles w)
      else if vehicleId_in \<noteq> None \<and> vehicleId_in \<noteq> Some 0 then
        (case getVehicleById vehicles (the vehicleId_in) of
           None \<Rightarrow> Inl VehicleNotFound
         | Some vehicle \<Rightarrow>
             (let (res, w') = generateMock_vehicle vehicle w in Inr ([res], w')))
      else Inl NoTargetGiven)"

text \<open>\<^verbatim>\<open>emissions.populateHistory\<close>, branch of one vehicle (\<^verbatim>\<open>input.vehicleId\<close> is given and
  not zero): the loop over the readings of \<^verbatim>\<open>generateHistoricalData\<close>. Each reading is
  stored; an alert is created only behind the gate \<^verbatim>\<open>Math.random() > 0.9\<close>, and only for
  CO2. The other branch, over all vehicles, creates no alert.\<close>

fun history_alerts ::
  "int \<Rightarrow> EmissionBaseline list \<Rightarrow> world \<Rightarrow> (EmissionBaseline \<times> Alert list) list \<times> world" where
  "history_alerts vid [] w = ([], w)"
| "history_alerts vid (d # ds) w =
     (let (r, w') = Math_random w;
          created =
            (if r > 0.9 then
               (if js_gt (co2 d) (co2 thresholds)
                then [\<lparr>alert_vehicleId = vid, gasType = ''CO2'', measuredValue = co2 d,
                        thresholdValue = co2 thresholds\<rparr>] else [])
             else []);
          (rest, w'') = history_alerts vid ds w'
      in ((d, created) # rest, w''))"

definition populateHistory_vehicle ::
  "Vehicle list \<Rightarrow> int \<Rightarrow> real \<Rightarrow> real \<Rightarrow> world
     \<Rightarrow> (error + (EmissionBaseline \<times> Alert list) list \<times> world) option" where
  "populateHistory_vehicle vehicles vehicleId_in hoursBack intervalMinutes w =
     (case getVehicleById vehicles vehicleId_in of
        None \<Rightarrow> Some (Inl VehicleNotFound)
      | Some vehicle \<Rightarrow>
          (case generateHistoricalData (vehicle_id vehicle) (vehicle_fuelType vehicle)
                  hoursBack intervalMinutes w of
             None \<Rightarrow> None
           | Some (historicalData, w') \<Rightarrow>
               Some (Inr (history_alerts (vehicle_id vehicle) historicalData w'))))"


section \<open>Notions used to state the properties\<close>

text \<open>The four gases of a reading, the property each one is read from, the label the
  routes give it in an alert, its variation bound before scaling (\<open>0.2\<close>, \<open>0.25\<close>,
  \<open>0.2\<close>, \<open>0.3\<close> in the four calls of \<^verbatim>\<open>generateValue\<close>), and its rank in the order of
  these calls.\<close>

datatype gas = CO2 | CO | NOx | PM

fun gas_value :: "gas \<Rightarrow> 'a EmissionBaseline_scheme \<Rightarrow> jsnum" where
  "gas_value CO2 e = co2 e"
| "gas_value CO e = co e"
| "gas_value NOx e = nox e"
| "gas_value PM e = pmLevel e"

fun gas_label :: "gas \<Rightarrow> string" where
  "gas_label CO2 = ''CO2''"
| "gas_label CO = ''CO''"
| "gas_label NOx = ''NOx''"
| "gas_label PM = ''PM''"

fun variation_bound :: "gas \<Rightarrow> real" where
  "variation_bound CO2 = 0.2"
| "variation_bound CO = 0.25"
| "variation_bound NOx = 0.2"
| "variation_bound PM = 0.3"

fun gas_rank :: "gas \<Rightarrow> nat" where
  "gas_rank CO2 = 0"
| "gas_rank CO = 1"
| "gas_rank NOx = 2"
| "gas_rank PM = 3"

text \<open>The module state after \<open>k\<close> further calls of \<^verbatim>\<open>Math.random()\<close>.\<close>

definition advance :: "nat \<Rightarrow> world \<Rightarrow> world" where
  "advance k w = w\<lparr>random := (\<lambda>n. random w (n + k))\<rparr>"

text \<open>A reading or baseline whose four properties are finite numbers.\<close>

fun is_num :: "jsnum \<Rightarrow> bool" where
  "is_num (Num a) = True"
| "is_num _ = False"

definition numeric :: "EmissionBaseline \<Rightarrow> bool" where
  "numeric e = (is_num (co2 e) \<and> is_num (co e) \<and> is_num (nox e) \<and> is_num (pmLevel e))"

text \<open>The five baselines of the fuel-type table.\<close>

definition table_baseline :: "EmissionBaseline \<Rightarrow> bool" where
  "table_baseline e = (e = petrol \<or> e = diesel \<or> e = hybrid \<or> e = electric \<or> e = cng)"

text \<open>A sequence of calls into the module, and the module state it leaves.\<close>

datatype call = GetProfile int string | Generate int string | Reset int

fun step :: "call \<Rightarrow> world \<Rightarrow> world" where
  "step (GetProfile v f) w = snd (getVehicleProfile v f w)"
| "step (Generate v f) w = snd (generateMockEmissionReading v f w)"
| "step (Reset v) w = resetVehicleProfile v w"

fun run :: "call list \<Rightarrow> world \<Rightarrow> world" where
  "run [] w = w"
| "run (c # cs) w = run cs (step c w)"

text \<open>The generation step in the words of the specification (4a to 4e), on real
  numbers, from the reference (the last value when there is one, the baseline value
  otherwise): the variation is the point of \<open>[lo, hi)\<close> picked by the uniform draw \<open>r\<close>; the
  variation amount \<open>reference * volatility * variation\<close> is added to the reference; the
  sum is multiplied by the trend multiplier, clamped, and rounded to one decimal.\<close>

definition spec_clamp :: "real \<Rightarrow> real \<Rightarrow> real" where
  "spec_clamp base x =
     (if base = 0 then max 0 (min x 10) else max (base * 0.2) (min x (base * 2)))"

definition spec_round1 :: "real \<Rightarrow> real" where
  "spec_round1 x = real_of_int (round (x * 10)) / 10"

definition spec_value ::
  "real \<Rightarrow> real \<Rightarrow> real \<Rightarrow> real \<Rightarrow> real \<Rightarrow> real \<Rightarrow> real \<Rightarrow> real" where
  "spec_value vol mult base reference lo hi r =
     (let variation = lo + r * (hi - lo);
          amount = reference * vol * variation
      in spec_round1 (spec_clamp base ((reference + amount) * mult)))"

text \<open>The same on the values read from the profile: \<open>previous\<close> is \<open>Undefined\<close> when the
  profile has no last value for the gas, and the result is not a number when the
  baseline value or the reference is not one.\<close>

definition spec_reading_value ::
  "real \<Rightarrow> real \<Rightarrow> jsnum \<Rightarrow> jsnum \<Rightarrow> real \<Rightarrow> real \<Rightarrow> real \<Rightarrow> jsnum" where
  "spec_reading_value vol mult base previous lo hi r =
     (case (base, if previous = Undefined then base else previous) of
        (Num b, Num reference) \<Rightarrow> Num (spec_value vol mult b reference lo hi r)
      | _ \<Rightarrow> NaN)"

text \<open>What the calls of the module keep true of every profile of the map: it has a
  last reading, and either its baseline is one of the table and its last reading is
  made of numbers, or its baseline is the inherited object.\<close>

definition consistent_profile :: "VehicleProfile \<Rightarrow> bool" where
  "consistent_profile p =
     (case lastReading p of
        None \<Rightarrow> False
      | Some l \<Rightarrow> (table_baseline (baseline p) \<and> numeric l) \<or> baseline p = inherited_object)"

text \<open>The profile that \<open>getVehicleProfile\<close> creates for an identifier without one.\<close>

definition fresh_profile :: "int \<Rightarrow> string \<Rightarrow> world \<Rightarrow> VehicleProfile" where
  "fresh_profile v ft w =
     (let b = (case EMISSION_BASELINES (toLowerCase ft) of Some b \<Rightarrow> b | None \<Rightarrow> petrol)
      in \<lparr>vehicleId = v, baseline = b, lastReading = Some b,
          trend = trends_at \<lfloor>random w 0 * 4\<rfloor>, volatility = 0.1 + random w 1 * 0.2\<rparr>)"

text \<open>A profile of the electric baseline whose last reading has no CO2, CO and NOx.\<close>

definition zero_emission :: "VehicleProfile \<Rightarrow> bool" where
  "zero_emission p =
     (baseline p = electric \<and>
      (case lastReading p of
         None \<Rightarrow> False
       | Some l \<Rightarrow> co2 l = Num 0 \<and> co l = Num 0 \<and> nox l = Num 0))"

definition consistent :: "world \<Rightarrow> bool" where
  "consistent w = (\<forall>v p. vehicleProfiles w v = Some p \<longrightarrow> consistent_profile p)"

text \<open>The interval of the specification for the trend multiplier of each trend.\<close>

fun trend_interval :: "trend \<Rightarrow> real \<times> real" where
  "trend_interval stable = (0.95, 1.05)"
| "trend_interval increasing = (1.0, 1.05)"
| "trend_interval decreasing = (0.95, 1.0)"
| "trend_interval volatile = (0.85, 1.15)"

text \<open>The threshold evaluator in the words of the specification: one entry (gas,
  measured value, threshold) per gas whose value is present and strictly greater than
  its fixed threshold; and the alert record made from an entry.\<close>

fun spec_threshold :: "gas \<Rightarrow> real" where
  "spec_threshold CO2 = 1000"
| "spec_threshold CO = 50"
| "spec_threshold NOx = 100"
| "spec_threshold PM = 100"

definition evaluate_gas :: "'a EmissionBaseline_scheme \<Rightarrow> gas \<Rightarrow> (gas \<times> real \<times> real) list" where
  "evaluate_gas reading g =
     (case gas_value g reading of
        Num x \<Rightarrow> if x > spec_threshold g then [(g, x, spec_threshold g)] else []
      | _ \<Rightarrow> [])"

definition evaluate :: "'a EmissionBaseline_scheme \<Rightarrow> (gas \<times> real \<times> real) list" where
  "evaluate reading = concat (map (evaluate_gas reading) [CO2, CO, NOx, PM])"

definition alert_of :: "int \<Rightarrow> gas \<times> real \<times> real \<Rightarrow> Alert" where
  "alert_of vid e =
     (case e of (g, x, t) \<Rightarrow>
        \<lparr>alert_vehicleId = vid, gasType = gas_label g, measuredValue = Num x,
         thresholdValue = Num t\<rparr>)"


text \<open>A concrete module state: no profile yet, and every draw equal to one half.\<close>

definition world0 :: world where
  "world0 = \<lparr>vehicleProfiles = Map.empty, random = (\<lambda>n. 1 / 2)\<rparr>"

text \<open>A second one: the first 26 draws are 0.95 (the draws of a profile creation and of
  four readings), the later ones one half.\<close>

definition world1 :: world where
  "world1 = \<lparr>vehicleProfiles = Map.empty, random = (\<lambda>n. if n < 26 then 0.95 else 1 / 2)\<rparr>"


section \<open>Basic facts about the random source and the generator\<close>

lemma Math_random_eq: "Math_random w = (random w 0, advance 1 w)"
  by (simp add: Math_random_def advance_def)

lemma random_advance [simp]: "random (advance k w) n = random w (n + k)"
  by (simp add: advance_def)

lemma vehicleProfiles_advance [simp]: "vehicleProfiles (advance k w) = vehicleProfiles w"
  by (simp add: advance_def)

lemma advance_advance [simp]: "advance a (advance b w) = advance (a + b) w"
  by (simp add: advance_def add.assoc)

lemma advance_0 [simp]: "advance 0 w = w"
  by (simp add: advance_def)

lemma snd_generateValue [simp]:
  "snd (generateValue vol mult b l lo hi w) = advance 1 w"
  by (simp add: generateValue_def Math_random_eq Let_def)


section \<open>Reset\<close>

text \<open>
  C9. \<open>resetVehicleProfile\<close> removes the profile of the given identifier, keeps the
  profile of every other identifier and the random source, and changes nothing at all
  when the identifier has no profile.
\<close>

theorem resetVehicleProfile_spec:
  "vehicleProfiles (resetVehicleProfile v w) v = None
   \<and> (\<forall>u. u \<noteq> v \<longrightarrow> vehicleProfiles (resetVehicleProfile v w) u = vehicleProfiles w u)
   \<and> random (resetVehicleProfile v w) = random w
   \<and> (vehicleProfiles w v = None \<longrightarrow> resetVehicleProfile v w = w)"
proof -
  have "vehicleProfiles w v = None \<Longrightarrow> (vehicleProfiles w)(v := None) = vehicleProfiles w"
    by (rule ext) simp
  then show ?thesis
    by (simp add: resetVehicleProfile_def)
qed

theorem resetVehicleProfile_spec_witness:
  "vehicleProfiles (resetVehicleProfile 1 (snd (getVehicleProfile 1 ''diesel'' world0))) 1 = None
   \<and> (2 \<noteq> (1::int) \<and>
      vehicleProfiles (resetVehicleProfile 1 (snd (getVehicleProfile 1 ''diesel'' world0))) 2
        = vehicleProfiles (snd (getVehicleProfile 1 ''diesel'' world0)) 2)
   \<and> (vehicleProfiles world0 7 = None \<and> resetVehicleProfile 7 world0 = world0)"
  using resetVehicleProfile_spec [of 1 "snd (getVehicleProfile 1 ''diesel'' world0)"]
    resetVehicleProfile_spec [of 7 world0]
  by (simp add: world0_def)


section \<open>The value of a generated reading\<close>

lemma generateMock_unfold:
  "generateMockEmissionReading v ft w =
     (let p = fst (getVehicleProfile v ft w);
          w0 = snd (getVehicleProfile v ft w);
          mult = trendMultiplier (trend p) (random w0 0);
          cf = 0.7 + random w0 1 * 0.3;
          reading =
            \<lparr>co2 = fst (generateValue (volatility p) mult (co2 (baseline p))
                         (opt_field co2 (lastReading p)) (- 0.2 * cf) (0.2 * cf) (advance 2 w0)),
             co = fst (generateValue (volatility p) mult (co (baseline p))
                         (opt_field co (lastReading p)) (- 0.25 * cf) (0.25 * cf) (advance 3 w0)),
             nox = fst (generateValue (volatility p) mult (nox (baseline p))
                         (opt_field nox (lastReading p)) (- 0.2 * cf) (0.2 * cf) (advance 4 w0)),
             pmLevel = fst (generateValue (volatility p) mult (pmLevel (baseline p))
                         (opt_field pmLevel (lastReading p)) (- 0.3 * cf) (0.3 * cf) (advance 5 w0))\<rparr>
      in (reading,
          (advance 6 w0)\<lparr>vehicleProfiles :=
               (vehicleProfiles w0)(v \<mapsto> p\<lparr>lastReading := Some reading\<rparr>)\<rparr>))"
  by (simp add: generateMockEmissionReading_def Math_random_eq Let_def split_beta eval_nat_numeral)

lemma opt_field_gas:
  "opt_field co2 l = opt_field (gas_value CO2) l"
  "opt_field co l = opt_field (gas_value CO) l"
  "opt_field nox l = opt_field (gas_value NOx) l"
  "opt_field pmLevel l = opt_field (gas_value PM) l"
  by (simp_all add: opt_field_def split: option.splits)

lemma generateMock_gas:
  "gas_value g (fst (generateMockEmissionReading v ft w)) =
     fst (generateValue (volatility (fst (getVehicleProfile v ft w)))
            (trendMultiplier (trend (fst (getVehicleProfile v ft w)))
               (random (snd (getVehicleProfile v ft w)) 0))
            (gas_value g (baseline (fst (getVehicleProfile v ft w))))
            (opt_field (gas_value g) (lastReading (fst (getVehicleProfile v ft w))))
            (- variation_bound g * (0.7 + random (snd (getVehicleProfile v ft w)) 1 * 0.3))
            (variation_bound g * (0.7 + random (snd (getVehicleProfile v ft w)) 1 * 0.3))
            (advance (2 + gas_rank g) (snd (getVehicleProfile v ft w))))"
  by (cases g) (simp_all add: generateMock_unfold Let_def opt_field_gas)

text \<open>The closure computes the formula of the specification when the baseline value and
  the reference are numbers, and \<open>NaN\<close> otherwise.\<close>

lemma generateValue_spec:
  "fst (generateValue vol mult b l lo hi w) = spec_reading_value vol mult b l lo hi (random w 0)"
proof (cases b)
  case (Num x)
  show ?thesis
  proof (cases "nullish l b")
    case (Num y)
    then show ?thesis using \<open>b = Num x\<close>
      by (auto simp add: generateValue_def spec_reading_value_def spec_value_def Math_random_eq
          Let_def nullish_def spec_clamp_def spec_round1_def round_def split: if_splits)
  next
    case NaN
    then show ?thesis using \<open>b = Num x\<close>
      by (auto simp add: generateValue_def spec_reading_value_def Math_random_eq
          Let_def nullish_def split: if_splits)
  next
    case Undefined
    then show ?thesis using \<open>b = Num x\<close>
      by (auto simp add: generateValue_def spec_reading_value_def Math_random_eq
          Let_def nullish_def split: if_splits)
  qed
next
  case NaN
  then show ?thesis
    by (cases "nullish l b")
       (auto simp add: generateValue_def spec_reading_value_def Math_random_eq Let_def
          nullish_def split: if_splits)
next
  case Undefined
  then show ?thesis
    by (cases "nullish l b")
       (auto simp add: generateValue_def spec_reading_value_def Math_random_eq Let_def
          nullish_def split: if_splits)
qed





section \<open>The profile store\<close>

lemma getVehicleProfile_existing:
  "vehicleProfiles w v = Some p \<Longrightarrow> getVehicleProfile v ft w = (p, w)"
  by (simp add: getVehicleProfile_def)

lemma getVehicleProfile_fresh:
  "vehicleProfiles w v = None \<Longrightarrow>
   getVehicleProfile v ft w =
     (fresh_profile v ft w,
      (advance 2 w)\<lparr>vehicleProfiles := (vehicleProfiles w)(v \<mapsto> fresh_profile v ft w)\<rparr>)"
  by (simp add: getVehicleProfile_def fresh_profile_def Math_random_eq Let_def trends_def
      eval_nat_numeral)

lemma getVehicleProfile_stored:
  "vehicleProfiles (snd (getVehicleProfile v ft w)) v = Some (fst (getVehicleProfile v ft w))"
  by (cases "vehicleProfiles w v")
     (simp_all add: getVehicleProfile_existing getVehicleProfile_fresh)

lemma getVehicleProfile_other:
  "u \<noteq> v \<Longrightarrow> vehicleProfiles (snd (getVehicleProfile v ft w)) u = vehicleProfiles w u"
  by (cases "vehicleProfiles w v")
     (simp_all add: getVehicleProfile_existing getVehicleProfile_fresh)

lemma generateMock_stored:
  "vehicleProfiles (snd (generateMockEmissionReading v ft w)) v =
     Some ((fst (getVehicleProfile v ft w))
             \<lparr>lastReading := Some (fst (generateMockEmissionReading v ft w))\<rparr>)"
  by (simp add: generateMock_unfold Let_def)

lemma generateMock_other:
  "u \<noteq> v \<Longrightarrow>
   vehicleProfiles (snd (generateMockEmissionReading v ft w)) u = vehicleProfiles w u"
  by (simp add: generateMock_unfold Let_def getVehicleProfile_other)

text \<open>A call other than the reset of \<open>v\<close> changes at most the last reading of the profile
  of \<open>v\<close>.\<close>

lemma step_keeps:
  assumes "c \<noteq> Reset v" and "vehicleProfiles w v = Some p"
  shows "\<exists>l. vehicleProfiles (step c w) v = Some (p\<lparr>lastReading := l\<rparr>)"
proof (cases c)
  case (GetProfile u f)
  with assms(2) show ?thesis
    by (cases "u = v")
       (auto simp add: getVehicleProfile_existing getVehicleProfile_other
          intro: exI[of _ "lastReading p"])
next
  case (Generate u f)
  with assms(2) show ?thesis
    by (cases "u = v")
       (auto simp add: generateMock_stored generateMock_other getVehicleProfile_existing
          intro: exI[of _ "lastReading p"])
next
  case (Reset u)
  with assms show ?thesis
    by (auto simp add: resetVehicleProfile_def intro: exI[of _ "lastReading p"])
qed

lemma run_keeps:
  "Reset v \<notin> set cs \<Longrightarrow> vehicleProfiles w v = Some p \<Longrightarrow>
   \<exists>l. vehicleProfiles (run cs w) v = Some (p\<lparr>lastReading := l\<rparr>)"
proof (induction cs arbitrary: w p)
  case Nil
  then show ?case by (auto intro: exI[of _ "lastReading p"])
next
  case (Cons c cs)
  from Cons.prems have "c \<noteq> Reset v" by auto
  from step_keeps [OF this Cons.prems(2)]
  obtain l where q: "vehicleProfiles (step c w) v = Some (p\<lparr>lastReading := l\<rparr>)" by blast
  from Cons.prems have "Reset v \<notin> set cs" by auto
  from Cons.IH [OF this q] show ?case by auto
qed

text \<open>
  C5. Between two calls of \<open>getVehicleProfile\<close> for the identifier \<open>v\<close>, let any sequence
  of calls of the module run that does not reset \<open>v\<close>. The second call returns a profile
  with the trend, the volatility and the baseline of the first, whatever fuel type it is
  given, and it leaves the module state as it finds it: it draws no random number.
\<close>

theorem getVehicleProfile_stable:
  assumes "Reset v \<notin> set cs"
  shows "trend (fst (getVehicleProfile v ft' (run cs (snd (getVehicleProfile v ft w)))))
           = trend (fst (getVehicleProfile v ft w))
         \<and> volatility (fst (getVehicleProfile v ft' (run cs (snd (getVehicleProfile v ft w)))))
           = volatility (fst (getVehicleProfile v ft w))
         \<and> baseline (fst (getVehicleProfile v ft' (run cs (snd (getVehicleProfile v ft w)))))
           = baseline (fst (getVehicleProfile v ft w))
         \<and> snd (getVehicleProfile v ft' (run cs (snd (getVehicleProfile v ft w))))
           = run cs (snd (getVehicleProfile v ft w))"
proof -
  from run_keeps [OF assms getVehicleProfile_stored]
  obtain l where "vehicleProfiles (run cs (snd (getVehicleProfile v ft w))) v
      = Some ((fst (getVehicleProfile v ft w))\<lparr>lastReading := l\<rparr>)" by blast
  then show ?thesis by (simp add: getVehicleProfile_existing)
qed

theorem getVehicleProfile_stable_witness:
  "Reset 1 \<notin> set [Generate 1 ''petrol'', Reset 2, GetProfile 3 ''cng'', Generate 1 ''diesel'']
   \<and> trend (fst (getVehicleProfile 1 ''diesel''
        (run [Generate 1 ''petrol'', Reset 2, GetProfile 3 ''cng'', Generate 1 ''diesel'']
           (snd (getVehicleProfile 1 ''petrol'' world0)))))
       = trend (fst (getVehicleProfile 1 ''petrol'' world0))
   \<and> baseline (fst (getVehicleProfile 1 ''diesel''
        (run [Generate 1 ''petrol'', Reset 2, GetProfile 3 ''cng'', Generate 1 ''diesel'']
           (snd (getVehicleProfile 1 ''petrol'' world0)))))
       = petrol"
proof -
  have "baseline (fst (getVehicleProfile 1 ''petrol'' world0)) = petrol"
    by (simp add: getVehicleProfile_def world0_def Math_random_eq Let_def
        EMISSION_BASELINES_def toLowerCase_def toLowerChar_def)
  then show ?thesis
    using getVehicleProfile_stable
      [of 1 "[Generate 1 ''petrol'', Reset 2, GetProfile 3 ''cng'', Generate 1 ''diesel'']"
          "''diesel''" "''petrol''" world0]
    by simp
qed


section \<open>Clamping\<close>

lemma table_baseline_nat:
  "table_baseline e \<Longrightarrow> \<exists>n::nat. gas_value g e = Num (real n)"
proof -
  have num: "\<And>k. (numeral k :: real) = real (numeral k)" by simp
  have zero: "(0::real) = real 0" by simp
  assume "table_baseline e"
  then show ?thesis
    unfolding table_baseline_def petrol_def diesel_def hybrid_def electric_def cng_def
    by (cases g) (auto intro: num zero)
qed

lemma table_baseline_numeric: "table_baseline e \<Longrightarrow> numeric e"
  by (auto simp add: table_baseline_def numeric_def petrol_def diesel_def hybrid_def
      electric_def cng_def)

lemma numeric_gas: "numeric e \<Longrightarrow> \<exists>x. gas_value g e = Num x"
  by (cases g; cases "co2 e"; cases "co e"; cases "nox e"; cases "pmLevel e")
     (simp_all add: numeric_def)

lemma round1_bounds:
  assumes "L \<le> x" and "x \<le> U" and "L * 10 = real_of_int m" and "U * 10 = real_of_int n"
  shows "L \<le> spec_round1 x \<and> spec_round1 x \<le> U"
proof -
  have "real_of_int m \<le> x * 10 + 1 / 2" using assms(1,3) by linarith
  then have lo: "m \<le> \<lfloor>x * 10 + 1 / 2\<rfloor>" by (simp add: le_floor_iff)
  have "x * 10 + 1 / 2 < real_of_int (n + 1)" using assms(2,4) by simp
  then have "\<lfloor>x * 10 + 1 / 2\<rfloor> < n + 1" by (simp only: floor_less_iff)
  then have hi: "\<lfloor>x * 10 + 1 / 2\<rfloor> \<le> n" by simp
  from lo have "real_of_int m \<le> real_of_int \<lfloor>x * 10 + 1 / 2\<rfloor>" by simp
  moreover from hi have "real_of_int \<lfloor>x * 10 + 1 / 2\<rfloor> \<le> real_of_int n" by simp
  ultimately show ?thesis using assms(3,4)
    by (simp add: spec_round1_def round_def field_simps)
qed

lemma spec_value_bounds_pos:
  assumes "0 < k"
  shows "real k * 0.2 \<le> spec_value vol mult (real k) y lo hi r
         \<and> spec_value vol mult (real k) y lo hi r \<le> real k * 2"
proof -
  have "real k * 0.2 \<le> real k * 2" by simp
  then have c: "real k * 0.2 \<le> spec_clamp (real k) X \<and> spec_clamp (real k) X \<le> real k * 2" for X
    using assms by (simp add: spec_clamp_def)
  have m: "real k * 0.2 * 10 = real_of_int (int (2 * k))" by simp
  have n: "real k * 2 * 10 = real_of_int (int (20 * k))" by simp
  show ?thesis
    unfolding spec_value_def Let_def
    using round1_bounds [OF conjunct1 [OF c] conjunct2 [OF c] m n] .
qed

lemma spec_value_bounds_zero:
  "0 \<le> spec_value vol mult 0 y lo hi r \<and> spec_value vol mult 0 y lo hi r \<le> 10"
proof -
  have c: "0 \<le> spec_clamp 0 X \<and> spec_clamp 0 X \<le> 10" for X
    by (simp add: spec_clamp_def)
  have m: "(0::real) * 10 = real_of_int 0" by simp
  have n: "(10::real) * 10 = real_of_int 100" by simp
  show ?thesis
    unfolding spec_value_def Let_def
    using round1_bounds [OF conjunct1 [OF c] conjunct2 [OF c] m n] .
qed


section \<open>What the calls keep true of the profiles\<close>

lemma numeric_iff: "numeric e = (\<forall>g. is_num (gas_value g e))"
proof
  assume "numeric e"
  then show "\<forall>g. is_num (gas_value g e)"
    by (auto simp add: numeric_def intro: gas.induct)
next
  assume a: "\<forall>g. is_num (gas_value g e)"
  from a [rule_format, of CO2] a [rule_format, of CO] a [rule_format, of NOx] a [rule_format, of PM]
  show "numeric e" by (simp add: numeric_def)
qed

lemma opt_field_Some [simp]: "opt_field f (Some l) = f l"
  by (simp add: opt_field_def)

lemma fresh_profile_consistent: "consistent_profile (fresh_profile v ft w)"
  by (auto simp add: consistent_profile_def fresh_profile_def EMISSION_BASELINES_def
      table_baseline_def table_baseline_numeric Let_def)

text \<open>A reading generated from a table baseline and a numeric last reading.\<close>

lemma generateMock_table_gas:
  assumes "table_baseline (baseline (fst (getVehicleProfile v ft w)))"
      and "lastReading (fst (getVehicleProfile v ft w)) = Some l"
      and "numeric l"
      and "gas_value g (baseline (fst (getVehicleProfile v ft w))) = Num b"
  shows "\<exists>x. gas_value g (fst (generateMockEmissionReading v ft w)) = Num x
           \<and> (0 < b \<longrightarrow> b * 0.2 \<le> x \<and> x \<le> b * 2) \<and> (b = 0 \<longrightarrow> 0 \<le> x \<and> x \<le> 10)"
proof -
  from table_baseline_nat [OF assms(1), of g] assms(4)
  obtain k :: nat where k: "b = real k" by auto
  from numeric_gas [OF assms(3), of g] obtain y where y: "gas_value g l = Num y" by blast
  show ?thesis
    using spec_value_bounds_pos [of k] spec_value_bounds_zero
    by (simp add: generateMock_gas generateValue_spec assms(2,4) y
        spec_reading_value_def k)
qed

lemma generateMock_numeric:
  assumes "table_baseline (baseline (fst (getVehicleProfile v ft w)))"
      and "lastReading (fst (getVehicleProfile v ft w)) = Some l"
      and "numeric l"
  shows "numeric (fst (generateMockEmissionReading v ft w))"
  unfolding numeric_iff
proof
  fix g
  from table_baseline_nat [OF assms(1), of g]
  obtain k :: nat where "gas_value g (baseline (fst (getVehicleProfile v ft w))) = Num (real k)"
    by blast
  from generateMock_table_gas [OF assms this]
  show "is_num (gas_value g (fst (generateMockEmissionReading v ft w)))" by auto
qed

lemma consistent_get: "consistent w \<Longrightarrow> consistent (snd (getVehicleProfile v ft w))"
  by (cases "vehicleProfiles w v")
     (auto simp add: consistent_def getVehicleProfile_existing getVehicleProfile_fresh
        fresh_profile_consistent)

lemma consistent_fst_get:
  "consistent w \<Longrightarrow> consistent_profile (fst (getVehicleProfile v ft w))"
  using consistent_get [of w v ft] getVehicleProfile_stored [of v ft w]
  by (auto simp add: consistent_def)

lemma consistent_generate:
  assumes "consistent w"
  shows "consistent (snd (generateMockEmissionReading v ft w))"
  unfolding consistent_def
proof (intro allI impI)
  fix u p
  assume p: "vehicleProfiles (snd (generateMockEmissionReading v ft w)) u = Some p"
  show "consistent_profile p"
  proof (cases "u = v")
    case False
    with p assms show ?thesis by (simp add: generateMock_other consistent_def)
  next
    case True
    with p have eq: "p = (fst (getVehicleProfile v ft w))
         \<lparr>lastReading := Some (fst (generateMockEmissionReading v ft w))\<rparr>"
      by (simp add: generateMock_stored)
    from consistent_fst_get [OF assms, of v ft]
    show ?thesis
      by (auto simp add: eq consistent_profile_def generateMock_numeric split: option.splits)
  qed
qed

lemma consistent_reset: "consistent w \<Longrightarrow> consistent (resetVehicleProfile v w)"
  by (auto simp add: consistent_def resetVehicleProfile_def split: if_splits)

lemma consistent_step: "consistent w \<Longrightarrow> consistent (step c w)"
  by (cases c) (simp_all add: consistent_get consistent_generate consistent_reset)

lemma consistent_run: "consistent w \<Longrightarrow> consistent (run cs w)"
  by (induction cs arbitrary: w) (simp_all add: consistent_step)

lemma consistent_empty: "vehicleProfiles w = Map.empty \<Longrightarrow> consistent w"
  by (simp add: consistent_def)




section \<open>The last reading of a profile\<close>

lemma run_lastReading:
  assumes "vehicleProfiles w0 = Map.empty" and "vehicleProfiles (run cs w0) u = Some q"
  shows "lastReading q \<noteq> None"
proof -
  have "consistent (run cs w0)"
    by (rule consistent_run) (rule consistent_empty, rule assms(1))
  with assms(2) have "consistent_profile q" by (auto simp add: consistent_def)
  then show ?thesis by (auto simp add: consistent_profile_def split: option.splits)
qed

text \<open>
  C4 (as the code has it). A profile has a last reading from its creation on:
  \<open>getVehicleProfile\<close> creates it with a copy of the baseline as last reading, every call
  of \<open>generateMockEmissionReading\<close> overwrites the last reading with the reading it returns,
  and no profile of a state reached from the empty map is without a last reading.
\<close>

theorem lastReading_present:
  "(vehicleProfiles w v = None \<longrightarrow>
      lastReading (fst (getVehicleProfile v ft w))
        = Some (baseline (fst (getVehicleProfile v ft w))))
   \<and> (\<exists>p. vehicleProfiles (snd (generateMockEmissionReading v ft w)) v = Some p
          \<and> lastReading p = Some (fst (generateMockEmissionReading v ft w)))
   \<and> (vehicleProfiles w0 = Map.empty \<and> vehicleProfiles (run cs w0) u = Some q
        \<longrightarrow> lastReading q \<noteq> None)"
  using run_lastReading [of w0 cs u q]
  by (auto simp add: getVehicleProfile_fresh fresh_profile_def Let_def generateMock_stored)

text \<open>The profile created for a vehicle that has had no generation call already has a
  last reading.\<close>

theorem lastReading_absent_counterexample:
  "vehicleProfiles world0 1 = None
   \<and> lastReading (fst (getVehicleProfile 1 ''petrol'' world0)) \<noteq> None"
  by (simp add: getVehicleProfile_def world0_def Math_random_eq Let_def)

theorem lastReading_present_witness:
  "vehicleProfiles world0 1 = None
   \<and> lastReading (fst (getVehicleProfile 1 ''petrol'' world0)) = Some petrol
   \<and> vehicleProfiles world0 = Map.empty
   \<and> vehicleProfiles (run [Generate 1 ''petrol'', GetProfile 2 ''cng''] world0) 2
       = Some (fst (getVehicleProfile 2 ''cng'' (snd (generateMockEmissionReading 1 ''petrol'' world0))))
   \<and> lastReading (fst (getVehicleProfile 2 ''cng''
        (snd (generateMockEmissionReading 1 ''petrol'' world0)))) \<noteq> None"
proof -
  have a: "vehicleProfiles world0 1 = None" "vehicleProfiles world0 = Map.empty"
    by (simp_all add: world0_def)
  have b: "baseline (fst (getVehicleProfile 1 ''petrol'' world0)) = petrol"
    by (simp add: getVehicleProfile_def world0_def Math_random_eq Let_def
        EMISSION_BASELINES_def toLowerCase_def toLowerChar_def)
  have c: "vehicleProfiles (run [Generate 1 ''petrol'', GetProfile 2 ''cng''] world0) 2
       = Some (fst (getVehicleProfile 2 ''cng'' (snd (generateMockEmissionReading 1 ''petrol'' world0))))"
    by (simp add: getVehicleProfile_stored)
  show ?thesis
    using lastReading_present [of world0 1 "''petrol''" world0
        "[Generate 1 ''petrol'', GetProfile 2 ''cng'']" 2
        "fst (getVehicleProfile 2 ''cng'' (snd (generateMockEmissionReading 1 ''petrol'' world0)))"]
      a b c
    by simp
qed

section \<open>Electric vehicles\<close>

lemma zero_emission_generate:
  assumes "zero_emission (fst (getVehicleProfile v ft w))"
  shows "co2 (fst (generateMockEmissionReading v ft w)) = Num 0
       \<and> co (fst (generateMockEmissionReading v ft w)) = Num 0
       \<and> nox (fst (generateMockEmissionReading v ft w)) = Num 0"
proof -
  from assms obtain l where l: "lastReading (fst (getVehicleProfile v ft w)) = Some l"
      "co2 l = Num 0" "co l = Num 0" "nox l = Num 0"
      and b: "baseline (fst (getVehicleProfile v ft w)) = electric"
    by (auto simp add: zero_emission_def split: option.splits)
  have z: "spec_reading_value vol mult (Num 0) (Num 0) lo hi r = Num 0" for vol mult lo hi r
    by (simp add: spec_reading_value_def spec_value_def spec_clamp_def spec_round1_def)
  have "gas_value g (fst (generateMockEmissionReading v ft w)) = Num 0" if "g \<noteq> PM" for g
    using that by (cases g) (simp_all add: generateMock_gas generateValue_spec l b electric_def z)
  from this [of CO2] this [of CO] this [of NOx] show ?thesis by simp
qed

lemma step_zero_emission:
  assumes "c \<noteq> Reset v" and "vehicleProfiles w v = Some p" and "zero_emission p"
  shows "\<exists>q. vehicleProfiles (step c w) v = Some q \<and> zero_emission q"
proof (cases c)
  case (GetProfile u f)
  with assms(2,3) show ?thesis
    by (cases "u = v") (auto simp add: getVehicleProfile_existing getVehicleProfile_other)
next
  case (Generate u f)
  show ?thesis
  proof (cases "u = v")
    case False
    with Generate assms(2,3) show ?thesis by (auto simp add: generateMock_other)
  next
    case True
    from assms(2) have g: "fst (getVehicleProfile v f w) = p"
      by (simp add: getVehicleProfile_existing)
    with assms(3) have "zero_emission (fst (getVehicleProfile v f w))" by simp
    from zero_emission_generate [OF this] assms(3) show ?thesis
      by (simp add: Generate True generateMock_stored g zero_emission_def)
  qed
next
  case (Reset u)
  with assms show ?thesis by (auto simp add: resetVehicleProfile_def)
qed

lemma run_zero_emission:
  "Reset v \<notin> set cs \<Longrightarrow> vehicleProfiles w v = Some p \<Longrightarrow> zero_emission p \<Longrightarrow>
   \<exists>q. vehicleProfiles (run cs w) v = Some q \<and> zero_emission q"
proof (induction cs arbitrary: w p)
  case Nil
  then show ?case by simp
next
  case (Cons c cs)
  from Cons.prems have "c \<noteq> Reset v" by auto
  from step_zero_emission [OF this Cons.prems(2,3)]
  obtain q where q: "vehicleProfiles (step c w) v = Some q" "zero_emission q" by blast
  from Cons.prems have "Reset v \<notin> set cs" by auto
  from Cons.IH [OF this q] show ?case by simp
qed

text \<open>
  C10. When the profile of \<open>v\<close> is created with a fuel type that reads \<open>electric\<close> in lower
  case, every reading that \<open>generateMockEmissionReading\<close> returns for \<open>v\<close> afterwards,
  whatever calls come in between short of a reset of \<open>v\<close>, has CO2, CO and NOx equal to
  \<open>0\<close>.
\<close>

theorem electric_readings_zero:
  assumes "vehicleProfiles w v = None" and "toLowerCase ft = ''electric''"
      and "Reset v \<notin> set cs"
  shows "co2 (fst (generateMockEmissionReading v ft' (run cs (snd (getVehicleProfile v ft w))))) = Num 0
       \<and> co (fst (generateMockEmissionReading v ft' (run cs (snd (getVehicleProfile v ft w))))) = Num 0
       \<and> nox (fst (generateMockEmissionReading v ft' (run cs (snd (getVehicleProfile v ft w))))) = Num 0"
proof -
  have "zero_emission (fresh_profile v ft w)"
    by (simp add: zero_emission_def fresh_profile_def assms(2) EMISSION_BASELINES_def
        electric_def Let_def)
  moreover have "vehicleProfiles (snd (getVehicleProfile v ft w)) v = Some (fresh_profile v ft w)"
    by (simp add: getVehicleProfile_fresh assms(1))
  ultimately obtain q where q: "vehicleProfiles (run cs (snd (getVehicleProfile v ft w))) v = Some q"
      "zero_emission q"
    using run_zero_emission [OF assms(3)] by blast
  then have "zero_emission (fst (getVehicleProfile v ft' (run cs (snd (getVehicleProfile v ft w)))))"
    by (simp add: getVehicleProfile_existing)
  from zero_emission_generate [OF this] show ?thesis .
qed

theorem electric_readings_zero_witness:
  "vehicleProfiles world0 5 = None \<and> toLowerCase ''Electric'' = ''electric''
   \<and> Reset 5 \<notin> set [Generate 5 ''Electric'', Generate 1 ''diesel'', Generate 5 ''Electric'']
   \<and> co2 (fst (generateMockEmissionReading 5 ''Electric''
        (run [Generate 5 ''Electric'', Generate 1 ''diesel'', Generate 5 ''Electric'']
           (snd (getVehicleProfile 5 ''Electric'' world0))))) = Num 0
   \<and> co (fst (generateMockEmissionReading 5 ''Electric''
        (run [Generate 5 ''Electric'', Generate 1 ''diesel'', Generate 5 ''Electric'']
           (snd (getVehicleProfile 5 ''Electric'' world0))))) = Num 0
   \<and> nox (fst (generateMockEmissionReading 5 ''Electric''
        (run [Generate 5 ''Electric'', Generate 1 ''diesel'', Generate 5 ''Electric'']
           (snd (getVehicleProfile 5 ''Electric'' world0))))) = Num 0"
proof -
  have a: "vehicleProfiles world0 5 = None" by (simp add: world0_def)
  have b: "toLowerCase ''Electric'' = ''electric''"
    by (simp add: toLowerCase_def toLowerChar_def)
  have c: "Reset 5 \<notin> set [Generate 5 ''Electric'', Generate 1 ''diesel'', Generate 5 ''Electric'']"
    by simp
  from electric_readings_zero [OF a b c, of "''Electric''"] a b c show ?thesis
    by (simp del: run.simps set_simps)
qed


section \<open>Trend multiplier and correlation factor\<close>

lemma valid_random_get:
  "valid_random w \<Longrightarrow> valid_random (snd (getVehicleProfile v ft w))"
  by (cases "vehicleProfiles w v")
     (simp_all add: valid_random_def getVehicleProfile_existing getVehicleProfile_fresh)

lemma trendMultiplier_interval:
  assumes "0 \<le> r" and "r < 1"
  shows "fst (trend_interval t) \<le> trendMultiplier (Some t) r
       \<and> trendMultiplier (Some t) r \<le> snd (trend_interval t)"
  using assms by (cases t) simp_all

lemma trends_at_valid:
  assumes "0 \<le> r" and "r < 1"
  shows "trends_at \<lfloor>r * 4\<rfloor> \<noteq> None"
proof -
  have "0 \<le> \<lfloor>r * 4\<rfloor>" using assms(1) by simp
  moreover have "\<lfloor>r * 4\<rfloor> < 4" using assms(2) by (simp add: floor_less_iff)
  ultimately show ?thesis by (simp add: trends_at_def trends_def)
qed

text \<open>
  C6. In a call of \<open>generateMockEmissionReading\<close> whose draws are in \<open>[0, 1)\<close>, the trend
  multiplier lies in the interval of the trend of the profile (stable \<open>[0.95, 1.05]\<close>,
  increasing \<open>[1, 1.05]\<close>, decreasing \<open>[0.95, 1]\<close>, volatile \<open>[0.85, 1.15]\<close>), the
  correlation factor lies in \<open>[0.7, 1)\<close>, and the value of each of the four gases is
  computed by \<open>generateValue\<close> with that one multiplier and with the variation bounds of
  the gas scaled by that one factor. A profile created in the call has a trend.
\<close>

theorem trend_and_correlation:
  assumes "valid_random w"
  shows "(\<forall>t. trend (fst (getVehicleProfile v ft w)) = Some t \<longrightarrow>
            fst (trend_interval t)
              \<le> trendMultiplier (Some t) (random (snd (getVehicleProfile v ft w)) 0)
          \<and> trendMultiplier (Some t) (random (snd (getVehicleProfile v ft w)) 0)
              \<le> snd (trend_interval t))
       \<and> 0.7 \<le> 0.7 + random (snd (getVehicleProfile v ft w)) 1 * 0.3
       \<and> 0.7 + random (snd (getVehicleProfile v ft w)) 1 * 0.3 < 1
       \<and> (\<forall>g. gas_value g (fst (generateMockEmissionReading v ft w)) =
              fst (generateValue (volatility (fst (getVehicleProfile v ft w)))
                (trendMultiplier (trend (fst (getVehicleProfile v ft w)))
                   (random (snd (getVehicleProfile v ft w)) 0))
                (gas_value g (baseline (fst (getVehicleProfile v ft w))))
                (opt_field (gas_value g) (lastReading (fst (getVehicleProfile v ft w))))
                (- variation_bound g * (0.7 + random (snd (getVehicleProfile v ft w)) 1 * 0.3))
                (variation_bound g * (0.7 + random (snd (getVehicleProfile v ft w)) 1 * 0.3))
                (advance (2 + gas_rank g) (snd (getVehicleProfile v ft w)))))
       \<and> (vehicleProfiles w v = None \<longrightarrow> trend (fst (getVehicleProfile v ft w)) \<noteq> None)"
proof -
  from valid_random_get [OF assms, of v ft]
  have r: "0 \<le> random (snd (getVehicleProfile v ft w)) n"
          "random (snd (getVehicleProfile v ft w)) n < 1" for n
    by (simp_all add: valid_random_def)
  from assms have r0: "0 \<le> random w 0" "random w 0 < 1" by (simp_all add: valid_random_def)
  have "trend (fst (getVehicleProfile v ft w)) \<noteq> None" if "vehicleProfiles w v = None"
    using that trends_at_valid [OF r0]
    by (simp add: getVehicleProfile_fresh fresh_profile_def Let_def)
  moreover have "0.7 \<le> 0.7 + random (snd (getVehicleProfile v ft w)) 1 * 0.3"
    using r(1) [of 1] by simp
  moreover have "0.7 + random (snd (getVehicleProfile v ft w)) 1 * 0.3 < 1"
    using r(2) [of 1] by simp
  ultimately show ?thesis
    using trendMultiplier_interval [OF r(1) r(2), of _ 0] generateMock_gas [of _ v ft w]
    by (intro conjI allI impI) blast+
qed

theorem trend_and_correlation_witness:
  "valid_random world0
   \<and> trend (fst (getVehicleProfile 1 ''petrol'' world0)) = Some decreasing
   \<and> fst (trend_interval decreasing)
        \<le> trendMultiplier (Some decreasing) (random (snd (getVehicleProfile 1 ''petrol'' world0)) 0)
   \<and> trendMultiplier (Some decreasing) (random (snd (getVehicleProfile 1 ''petrol'' world0)) 0)
        \<le> snd (trend_interval decreasing)
   \<and> vehicleProfiles world0 1 = None
   \<and> trend (fst (getVehicleProfile 1 ''petrol'' world0)) \<noteq> None"
proof -
  have a: "valid_random world0" by (simp add: valid_random_def world0_def)
  have b: "trend (fst (getVehicleProfile 1 ''petrol'' world0)) = Some decreasing"
    by (simp add: getVehicleProfile_def world0_def Math_random_eq Let_def trends_at_def
        trends_def)
  have c: "vehicleProfiles world0 1 = None" by (simp add: world0_def)
  from trend_and_correlation [OF a, of 1 "''petrol''"] a b c show ?thesis
    by simp
qed

section \<open>Fuel types\<close>

lemma toLowerCase_idem: "toLowerCase (toLowerCase s) = toLowerCase s"
proof -
  have "toLowerChar (toLowerChar c) = toLowerChar c" for c
    by (simp add: toLowerChar_def split: option.splits if_splits)
  then show ?thesis by (simp add: toLowerCase_def)
qed

lemma fresh_profile_lower: "fresh_profile v (toLowerCase ft) w = fresh_profile v ft w"
  by (simp add: fresh_profile_def toLowerCase_idem)

lemma getVehicleProfile_lower:
  "getVehicleProfile v (toLowerCase ft) w = getVehicleProfile v ft w"
  by (cases "vehicleProfiles w v")
     (simp_all add: getVehicleProfile_existing getVehicleProfile_fresh fresh_profile_lower)

lemma fuelType_table:
  assumes "vehicleProfiles w v = None"
      and "toLowerCase ft \<noteq> ''constructor''" and "toLowerCase ft \<noteq> ''__proto__''"
  shows "baseline (fst (getVehicleProfile v ft w)) =
           (if toLowerCase ft = ''diesel'' then diesel
            else if toLowerCase ft = ''hybrid'' then hybrid
            else if toLowerCase ft = ''electric'' then electric
            else if toLowerCase ft = ''cng'' then cng
            else petrol)"
  using assms
  by (simp add: getVehicleProfile_fresh fresh_profile_def EMISSION_BASELINES_def Let_def)

text \<open>
  C8. The fuel type is lower-cased before the table is read (\<open>getVehicleProfile_lower\<close>),
  and a fuel type that is not a key of the table gives the petrol baseline
  (\<open>fuelType_table\<close>), with two exceptions: the fuel types that read \<open>constructor\<close> or
  \<open>__proto__\<close> in lower case find an inherited property of the table object. The profile
  of such a vehicle has a baseline without gas values, not the petrol baseline, and its
  readings are not numbers.
\<close>

theorem fuelType_constructor_not_petrol:
  "vehicleProfiles world0 1 = None
   \<and> baseline (fst (getVehicleProfile 1 ''constructor'' world0)) = inherited_object
   \<and> baseline (fst (getVehicleProfile 1 ''constructor'' world0)) \<noteq> petrol
   \<and> fst (generateMockEmissionReading 1 ''constructor'' world0)
       = \<lparr>co2 = NaN, co = NaN, nox = NaN, pmLevel = NaN\<rparr>"
proof -
  have a: "vehicleProfiles world0 1 = None" by (simp add: world0_def)
  have l: "toLowerCase ''constructor'' = ''constructor''"
    by (simp add: toLowerCase_def toLowerChar_def)
  have b: "fst (getVehicleProfile 1 ''constructor'' world0)
             = \<lparr>vehicleId = 1, baseline = inherited_object, lastReading = Some inherited_object,
                trend = trends_at \<lfloor>random world0 0 * 4\<rfloor>,
                volatility = 0.1 + random world0 1 * 0.2\<rparr>"
    by (simp add: getVehicleProfile_fresh [OF a] fresh_profile_def l EMISSION_BASELINES_def)
  have c: "inherited_object \<noteq> petrol" by (simp add: inherited_object_def petrol_def)
  have d: "fst (generateMockEmissionReading 1 ''constructor'' world0)
       = \<lparr>co2 = NaN, co = NaN, nox = NaN, pmLevel = NaN\<rparr>"
    by (simp add: generateMock_unfold Let_def b generateValue_spec spec_reading_value_def
        inherited_object_def)
  from a b c d show ?thesis by simp
qed


section \<open>Historical backfill\<close>


text \<open>With the bound \<open>+Infinity\<close> the loop does not return.\<close>

lemma history_loop_Some_bound:
  "history_loop v ft points i data w = Some y \<Longrightarrow> points \<noteq> PosInfinity"
proof (rule history_loop.raw_induct
    [where P = "\<lambda>v ft points i data w y. points \<noteq> PosInfinity"])
  show "history_loop v ft points i data w = Some y \<Longrightarrow>
        history_loop v ft points i data w = Some y" .
next
  fix f :: "int \<Rightarrow> string \<Rightarrow> loop_bound \<Rightarrow> int \<Rightarrow> EmissionBaseline list \<Rightarrow> world
     \<Rightarrow> (EmissionBaseline list \<times> world) option"
  fix v ft points i data w y
  assume IH: "\<And>v ft points i data w y. f v ft points i data w = Some y \<Longrightarrow> points \<noteq> PosInfinity"
  assume eq: "(if le_bound i points then
        (case generateMockEmissionReading v ft w of
           (reading, w') \<Rightarrow> f v ft points (i + 1) (data @ [reading]) w')
      else Some (data, w)) = Some y"
  show "points \<noteq> PosInfinity"
  proof
    assume inf: "points = PosInfinity"
    with eq obtain r w' where rec: "f v ft PosInfinity (i + 1) (data @ [r]) w' = Some y"
      by (cases "generateMockEmissionReading v ft w") auto
    from IH [OF rec] show False by simp
  qed
qed

lemma history_loop_PosInfinity: "history_loop v ft PosInfinity i data w = None"
  using history_loop_Some_bound [of v ft PosInfinity i data w]
  by (cases "history_loop v ft PosInfinity i data w") auto

lemma generateHistoricalData_fresh:
  "generateHistoricalData v ft hoursBack intervalMinutes w =
     history_loop v ft (points_of hoursBack intervalMinutes) 0 []
       ((advance 2 w)\<lparr>vehicleProfiles := (vehicleProfiles w)(v \<mapsto> fresh_profile v ft w)\<rparr>)"
proof -
  have "vehicleProfiles (resetVehicleProfile v w) v = None"
    by (simp add: resetVehicleProfile_def)
  from getVehicleProfile_fresh [OF this, of ft] show ?thesis
    by (simp add: generateHistoricalData_def Let_def resetVehicleProfile_def
        fresh_profile_def advance_def)
qed

lemma generateHistoricalData_zero_interval:
  "0 < hoursBack \<Longrightarrow> generateHistoricalData v ft hoursBack 0 w = None"
  by (simp add: generateHistoricalData_fresh points_of_def history_loop_PosInfinity)





section \<open>Threshold checks\<close>

lemmas eval_simps = generateMock_unfold Let_def getVehicleProfile_existing generateValue_spec
  spec_reading_value_def spec_value_def spec_clamp_def spec_round1_def round_def
  fresh_profile_def EMISSION_BASELINES_def toLowerCase_def toLowerChar_def diesel_def
  trends_at_def trends_def world1_def opt_field_def

lemma diesel_history:
  "\<exists>w'. generateHistoricalData 1 ''diesel'' 1 20 world1 =
     Some ([\<lparr>co2 = Num (6563 / 10), co = Num (29 / 2), nox = Num (537 / 10), pmLevel = Num (489 / 10)\<rparr>,
            \<lparr>co2 = Num (3916 / 5), co = Num (35 / 2), nox = Num (641 / 10), pmLevel = Num (299 / 5)\<rparr>,
            \<lparr>co2 = Num (4673 / 5), co = Num (211 / 10), nox = Num (153 / 2), pmLevel = Num (731 / 10)\<rparr>,
            \<lparr>co2 = Num 1100, co = Num 24, nox = Num 90, pmLevel = Num 80\<rparr>], w')
     \<and> random w' = (\<lambda>n. 1 / 2)"
  apply (simp add: generateHistoricalData_fresh points_of_def)
  apply (subst history_loop.simps)
  apply (simp add: eval_simps)
  apply (subst history_loop.simps)
  apply (simp add: eval_simps)
  apply (subst history_loop.simps)
  apply (simp add: eval_simps)
  apply (subst history_loop.simps)
  apply (simp add: eval_simps)
  apply (subst history_loop.simps)
  apply (simp add: eval_simps advance_def)
  done

lemma map_alert_of_evaluate:
  "map (alert_of vid) (evaluate r) =
     concat (map (\<lambda>g. map (alert_of vid) (evaluate_gas r g)) [CO2, CO, NOx, PM])"
  by (simp add: evaluate_def)

lemma alert_of_evaluate_gas:
  "map (alert_of vid) (evaluate_gas r g) =
     (case gas_value g r of
        Num a \<Rightarrow> if a > spec_threshold g
                 then [\<lparr>alert_vehicleId = vid, gasType = gas_label g, measuredValue = Num a,
                         thresholdValue = Num (spec_threshold g)\<rparr>] else []
      | _ \<Rightarrow> [])"
  by (simp add: evaluate_gas_def alert_of_def split: jsnum.splits)

lemma ingest_alerts_evaluate: "ingest_alerts vid inp = map (alert_of vid) (evaluate inp)"
  by (cases "co2 inp"; cases "co inp"; cases "nox inp"; cases "pmLevel inp")
     (simp_all add: ingest_alerts_def map_alert_of_evaluate alert_of_evaluate_gas thresholds_def)

lemma mock_alerts_evaluate: "mock_alerts vid r = map (alert_of vid) (evaluate r)"
  by (cases "co2 r"; cases "co r"; cases "nox r"; cases "pmLevel r")
     (simp_all add: mock_alerts_def map_alert_of_evaluate alert_of_evaluate_gas thresholds_def)

lemma evaluate_iff:
  "(g, x, t) \<in> set (evaluate r) \<longleftrightarrow>
     gas_value g r = Num x \<and> spec_threshold g < x \<and> t = spec_threshold g"
  by (cases g) (auto simp add: evaluate_def evaluate_gas_def split: jsnum.splits if_splits)

lemma generateMock_all_alerts:
  "map snd (fst (generateMock_all vehicles w)) =
     map2 (\<lambda>vehicle reading. map (alert_of (vehicle_id vehicle)) (evaluate reading))
       vehicles (map fst (fst (generateMock_all vehicles w)))"
  by (induction vehicles arbitrary: w)
     (simp_all add: generateMock_vehicle_def mock_alerts_evaluate split_beta Let_def)

text \<open>
  C3 (as the code has it). For a reading ingested by \<open>emissions.ingest\<close> or generated by
  \<open>emissions.generateMock\<close>, the alerts created are those of the threshold evaluator of the
  specification: for each gas, in the order CO2, CO, NOx, PM, one alert with the label of
  the gas, the measured value and the fixed threshold (1000, 50, 100, 100) if and only if
  the value is a number strictly greater than the threshold; an absent value creates no
  alert.
\<close>

theorem threshold_alerts:
  "ingest_alerts vid inp = map (alert_of vid) (evaluate inp)
   \<and> ingest (Some vehicle) inp = Inr (map (alert_of (vehicle_id vehicle)) (evaluate inp))
   \<and> snd (fst (generateMock_vehicle vehicle w))
       = map (alert_of (vehicle_id vehicle)) (evaluate (fst (fst (generateMock_vehicle vehicle w))))
   \<and> map snd (fst (generateMock_all vehicles w))
       = map2 (\<lambda>vehicle reading. map (alert_of (vehicle_id vehicle)) (evaluate reading))
           vehicles (map fst (fst (generateMock_all vehicles w)))
   \<and> ((g, x, t) \<in> set (evaluate reading) \<longleftrightarrow>
        gas_value g reading = Num x \<and> spec_threshold g < x \<and> t = spec_threshold g)"
  using generateMock_all_alerts [of vehicles w]
  by (simp add: ingest_alerts_evaluate ingest_def generateMock_vehicle_def
      mock_alerts_evaluate split_beta Let_def evaluate_iff)

theorem threshold_alerts_witness:
  "ingest_alerts 7 \<lparr>co2 = Num 1500, co = Undefined, nox = Num 100, pmLevel = Num 0,
                     deviceId = ''dev-7''\<rparr>
     = [\<lparr>alert_vehicleId = 7, gasType = ''CO2'', measuredValue = Num 1500,
          thresholdValue = Num 1000\<rparr>]"
proof -
  have "ingest_alerts 7 \<lparr>co2 = Num 1500, co = Undefined, nox = Num 100, pmLevel = Num 0,
                     deviceId = ''dev-7''\<rparr>
     = map (alert_of 7) (evaluate \<lparr>co2 = Num 1500, co = Undefined, nox = Num 100,
                     pmLevel = Num 0, deviceId = ''dev-7''\<rparr>)"
    using threshold_alerts [of 7 "\<lparr>co2 = Num 1500, co = Undefined, nox = Num 100,
                     pmLevel = Num 0, deviceId = ''dev-7''\<rparr>"]
    by (rule conjunct1)
  then show ?thesis
    by (simp add: evaluate_def evaluate_gas_def alert_of_def)
qed

text \<open>The route \<open>emissions.populateHistory\<close> stores generated readings too. For a diesel
  vehicle and the draws of \<open>world1\<close> its fourth reading has 1100 of CO2, above the
  threshold 1000, and no alert is created for it: the draw of the gate is one half.\<close>

theorem populateHistory_no_alert_counterexample:
  "map_option (map_sum id fst)
     (populateHistory_vehicle [\<lparr>vehicle_id = 1, vehicle_fuelType = ''diesel''\<rparr>] 1 1 20 world1)
   = Some (Inr
       [(\<lparr>co2 = Num (6563 / 10), co = Num (29 / 2), nox = Num (537 / 10), pmLevel = Num (489 / 10)\<rparr>, []),
        (\<lparr>co2 = Num (3916 / 5), co = Num (35 / 2), nox = Num (641 / 10), pmLevel = Num (299 / 5)\<rparr>, []),
        (\<lparr>co2 = Num (4673 / 5), co = Num (211 / 10), nox = Num (153 / 2), pmLevel = Num (731 / 10)\<rparr>, []),
        (\<lparr>co2 = Num 1100, co = Num 24, nox = Num 90, pmLevel = Num 80\<rparr>, [])])
   \<and> evaluate \<lparr>co2 = Num 1100, co = Num 24, nox = Num 90, pmLevel = Num 80\<rparr>
       = [(CO2, 1100, 1000)]"
proof -
  from diesel_history obtain w' where
    h: "generateHistoricalData 1 ''diesel'' 1 20 world1 =
     Some ([\<lparr>co2 = Num (6563 / 10), co = Num (29 / 2), nox = Num (537 / 10), pmLevel = Num (489 / 10)\<rparr>,
            \<lparr>co2 = Num (3916 / 5), co = Num (35 / 2), nox = Num (641 / 10), pmLevel = Num (299 / 5)\<rparr>,
            \<lparr>co2 = Num (4673 / 5), co = Num (211 / 10), nox = Num (153 / 2), pmLevel = Num (731 / 10)\<rparr>,
            \<lparr>co2 = Num 1100, co = Num 24, nox = Num 90, pmLevel = Num 80\<rparr>], w')"
    and r: "random w' = (\<lambda>n. 1 / 2)" by blast
  have e: "evaluate \<lparr>co2 = Num 1100, co = Num 24, nox = Num 90, pmLevel = Num 80\<rparr>
       = [(CO2, 1100, 1000)]"
    by (simp add: evaluate_def evaluate_gas_def)
  show ?thesis
    by (simp add: populateHistory_vehicle_def getVehicleById_def h e Math_random_eq r
        split_beta)
qed

end
